theory Spec2Isabelle
  imports Complex_Main "HOL-Library.Char_ord" "HOL-Library.List_Lexorder"
begin

section \<open>The catalog database\<close>

text \<open>
  The scripts work on one SQLite database. Each table is a list of rows in insertion
  order; a row is a record of the columns the scripts read or write. Identifiers are
  Python integers, text columns are strings, a nullable column is an option.
\<close>

record vendor =
  vendor_id :: int
  vendor_name :: string

record canonical_data_type =
  data_type_id :: int
  data_type_name :: string

record canonical_field =
  canonical_field_id :: int
  field_name :: string

record data_type_field =
  dtf_data_type_id :: int
  dtf_canonical_field_id :: int

record rest_endpoint =
  endpoint_id :: int
  ep_vendor_id :: int
  path :: string
  http_method :: string

record websocket_channel =
  channel_id :: int
  ch_vendor_id :: int
  channel_name :: string

text \<open>
  The transformation rule is stored as JSON text and never interpreted by the scripts;
  the tag of the rule stands for the text.
\<close>

datatype transformation = Identity | String_to_numeric | Integer_to_datetime | Ms_to_datetime

record field_mapping =
  mapping_id :: int
  fm_vendor_id :: int
  fm_canonical_field_id :: int
  source_type :: string
  entity_type :: string
  vendor_field_path :: string
  fm_endpoint_id :: "int option"
  fm_channel_id :: "int option"
  transformation_rule :: "transformation option"
  priority :: int
  is_active :: bool

record database =
  vendors :: "vendor list"
  canonical_data_types :: "canonical_data_type list"
  canonical_fields :: "canonical_field list"
  data_type_fields :: "data_type_field list"
  rest_endpoints :: "rest_endpoint list"
  websocket_channels :: "websocket_channel list"
  field_mappings :: "field_mapping list"

text \<open>
  The table definitions are not part of the scripts. What an INSERT into
  \<open>field_mappings\<close> needs from them is taken as a parameter \<open>accepts\<close> of every
  function that inserts: the integrity constraints of the table, deciding whether the
  database takes the row or raises \<open>sqlite3.Error\<close>.
\<close>

type_synonym constraints = "database \<Rightarrow> field_mapping \<Rightarrow> bool"

definition references_ok :: "int list \<Rightarrow> int option \<Rightarrow> bool" where
  "references_ok keys r = (case r of None \<Rightarrow> True | Some k \<Rightarrow> k \<in> set keys)"

definition same_natural_key :: "field_mapping \<Rightarrow> field_mapping \<Rightarrow> bool" where
  "same_natural_key a b \<longleftrightarrow>
     fm_vendor_id a = fm_vendor_id b \<and> fm_canonical_field_id a = fm_canonical_field_id b \<and>
     source_type a = source_type b \<and> vendor_field_path a = vendor_field_path b \<and>
     fm_endpoint_id a = fm_endpoint_id b \<and> fm_channel_id a = fm_channel_id b"

definition schema_accepts :: constraints where
  \<comment> \<open>Modelled from the spec: the table definition of \<open>field_mappings\<close> is missing from
      the sources. Section 6 of the spec names referential constraints to the vendor,
      to the canonical field and to both kinds of source, and section 5 a unique
      constraint on the natural key; a NULL reference is not checked, as in SQL.\<close>
  "schema_accepts db r \<longleftrightarrow>
     fm_vendor_id r \<in> set (map vendor_id (vendors db)) \<and>
     fm_canonical_field_id r \<in> set (map canonical_field_id (canonical_fields db)) \<and>
     references_ok (map endpoint_id (rest_endpoints db)) (fm_endpoint_id r) \<and>
     references_ok (map channel_id (websocket_channels db)) (fm_channel_id r) \<and>
     filter (same_natural_key r) (field_mappings db) = []"

definition default_priority :: int where
  \<comment> \<open>Modelled from the spec: the column default of \<open>priority\<close> (section 4.2, "default 0"),
      used by the INSERT statements that leave the column out.\<close>
  "default_priority = 0"

definition default_is_active :: bool where
  \<comment> \<open>Modelled from the spec: the column default of \<open>is_active\<close> (section 4.2, a new
      mapping is inserted active).\<close>
  "default_is_active = True"

definition next_mapping_id :: "database \<Rightarrow> int" where
  \<comment> \<open>The key SQLite gives a new row: one more than the largest in the table.\<close>
  "next_mapping_id db = foldr max (map mapping_id (field_mappings db)) 0 + 1"

definition insert_field_mapping :: "database \<Rightarrow> field_mapping \<Rightarrow> database" where
  "insert_field_mapping db r = db\<lparr>field_mappings := field_mappings db @ [r]\<rparr>"

subsection \<open>Python and SQL primitives\<close>

text \<open>\<open>if not x\<close> on an optional integer: \<open>None\<close> and \<open>0\<close> are both false.\<close>

definition truthy :: "int option \<Rightarrow> bool" where
  "truthy x = (case x of None \<Rightarrow> False | Some n \<Rightarrow> n \<noteq> 0)"

text \<open>\<open>cursor.fetchone()\<close>: the first row of the result, or \<open>None\<close>.\<close>

definition fetchone :: "'a list \<Rightarrow> 'a option" where
  "fetchone rows = (case rows of [] \<Rightarrow> None | r # _ \<Rightarrow> Some r)"

definition lower_char :: "char \<Rightarrow> char" where
  \<comment> \<open>An ASCII capital letter (codes 65 to 90) gets the bit of value 32 set.\<close>
  "lower_char c =
     (if 65 \<le> (of_char c :: nat) \<and> (of_char c :: nat) \<le> 90
      then (case c of Char b0 b1 b2 b3 b4 b5 b6 b7 \<Rightarrow> Char b0 b1 b2 b3 b4 True b6 b7)
      else c)"

definition lower :: "string \<Rightarrow> string" where
  "lower s = map lower_char s"

text \<open>Python's \<open>p in s\<close> on strings.\<close>

fun contains :: "string \<Rightarrow> string \<Rightarrow> bool" where
  "contains p [] = (p = [])"
| "contains p (c # cs) = (take (length p) (c # cs) = p \<or> contains p cs)"

text \<open>
  SQL \<open>text LIKE pattern\<close> as SQLite evaluates it: \<open>%\<close> stands for any run of
  characters, \<open>_\<close> for any one character, and letters match without regard to case.
\<close>

fun sql_like :: "string \<Rightarrow> string \<Rightarrow> bool" where
  "sql_like [] s = (s = [])"
| "sql_like (p # ps) [] = (p = CHR ''%'' \<and> sql_like ps [])"
| "sql_like (p # ps) (c # cs) =
     (if p = CHR ''%'' then sql_like ps (c # cs) \<or> sql_like (p # ps) cs
      else (p = CHR ''_'' \<or> lower_char p = lower_char c) \<and> sql_like ps cs)"

section \<open>Lookups shared by the mapping scripts\<close>

definition get_vendor_id :: "database \<Rightarrow> string \<Rightarrow> int option" where
  "get_vendor_id db name =
     map_option vendor_id (fetchone (filter (\<lambda>v. vendor_name v = name) (vendors db)))"

definition get_canonical_field_id :: "database \<Rightarrow> string \<Rightarrow> int option" where
  "get_canonical_field_id db name =
     map_option canonical_field_id
       (fetchone (filter (\<lambda>f. field_name f = name) (canonical_fields db)))"

definition get_websocket_channel_id :: "database \<Rightarrow> int \<Rightarrow> string \<Rightarrow> int option" where
  "get_websocket_channel_id db vid name =
     map_option channel_id
       (fetchone (filter (\<lambda>c. ch_vendor_id c = vid \<and> channel_name c = name)
          (websocket_channels db)))"

definition get_websocket_channels :: "database \<Rightarrow> int \<Rightarrow> websocket_channel list" where
  "get_websocket_channels db vid =
     filter (\<lambda>c. ch_vendor_id c = vid \<and> sql_like ''%ticker%'' (channel_name c))
       (websocket_channels db)"

definition get_rest_endpoints :: "database \<Rightarrow> int \<Rightarrow> rest_endpoint list" where
  "get_rest_endpoints db vid =
     filter (\<lambda>e. ep_vendor_id e = vid \<and> http_method e = ''GET'' \<and>
                 (sql_like ''%ticker%'' (path e) \<or> sql_like ''%last_price%'' (path e)))
       (rest_endpoints db)"

section \<open>create_bitmart_mappings.py\<close>

text \<open>
  \<open>BitmartTickerMapper.create_field_mapping\<close>: look for a row of the same vendor,
  canonical field, path and channel; if there is one, report success and store
  nothing; otherwise INSERT a websocket row and report whether the database took it.
  The result is the database after the call and the returned flag.
\<close>

definition bitmart_existing ::
  "database \<Rightarrow> int \<Rightarrow> int \<Rightarrow> string \<Rightarrow> int \<Rightarrow> field_mapping list" where
  "bitmart_existing db vid cfid vpath cid =
     filter (\<lambda>r. fm_vendor_id r = vid \<and> fm_canonical_field_id r = cfid \<and>
                 vendor_field_path r = vpath \<and> fm_channel_id r = Some cid)
       (field_mappings db)"

definition bitmart_create_field_mapping ::
  "constraints \<Rightarrow> database \<Rightarrow> int \<Rightarrow> int \<Rightarrow> string \<Rightarrow> int \<Rightarrow> string \<Rightarrow>
     transformation option \<Rightarrow> int \<Rightarrow> database \<times> bool" where
  "bitmart_create_field_mapping accepts db vid cfid vpath cid etype rule prio =
     (if fetchone (bitmart_existing db vid cfid vpath cid) \<noteq> None then (db, True)
      else
        let r = \<lparr>mapping_id = next_mapping_id db, fm_vendor_id = vid,
                 fm_canonical_field_id = cfid, source_type = ''websocket'',
                 entity_type = etype, vendor_field_path = vpath, fm_endpoint_id = None,
                 fm_channel_id = Some cid, transformation_rule = rule, priority = prio,
                 is_active = True\<rparr>
        in if accepts db r then (insert_field_mapping db r, True) else (db, False))"

text \<open>The list of mappings in \<open>map_bitmart_ticker_fields\<close>, in the order of the source.\<close>

definition bitmart_mappings :: "(string \<times> string \<times> transformation \<times> string) list" where
  "bitmart_mappings =
     [(''data[].symbol'', ''symbol'', Identity, ''ticker''),
      (''data[].last_price'', ''last_price'', String_to_numeric, ''ticker''),
      (''data[].best_bid'', ''bid_price'', String_to_numeric, ''ticker''),
      (''data[].best_ask'', ''ask_price'', String_to_numeric, ''ticker''),
      (''data[].best_bid_size'', ''best_bid_size'', String_to_numeric, ''ticker''),
      (''data[].best_ask_size'', ''best_ask_size'', String_to_numeric, ''ticker''),
      (''data[].high_24h'', ''high_24h'', String_to_numeric, ''ticker''),
      (''data[].low_24h'', ''low_24h'', String_to_numeric, ''ticker''),
      (''data[].open_24h'', ''open_24h'', String_to_numeric, ''ticker''),
      (''data[].quote_volume_24h'', ''volume_24h'', String_to_numeric, ''ticker''),
      (''data[].base_volume_24h'', ''volume_24h'', String_to_numeric, ''ticker''),
      (''data[].timestamp'', ''timestamp'', Integer_to_datetime, ''ticker''),
      (''data[].close_24h'', ''last_price'', String_to_numeric, ''ticker'')]"

text \<open>
  One turn of the loop of \<open>map_bitmart_ticker_fields\<close> on the state (database,
  \<open>created_count\<close>, \<open>failed_count\<close>). Every mapping is registered with priority 10.
\<close>

definition bitmart_step ::
  "constraints \<Rightarrow> int \<Rightarrow> int \<Rightarrow> string \<times> string \<times> transformation \<times> string \<Rightarrow>
     database \<times> nat \<times> nat \<Rightarrow> database \<times> nat \<times> nat" where
  "bitmart_step accepts vid cid m s =
     (case (m, s) of ((vendor_path, canonical_name, transform_rule, etype), (db, created, failed)) \<Rightarrow>
        (case get_canonical_field_id db canonical_name of
           None \<Rightarrow> (db, created, failed + 1)
         | Some cfid \<Rightarrow>
             if cfid = 0 then (db, created, failed + 1)
             else
               (case bitmart_create_field_mapping accepts db vid cfid vendor_path cid etype
                       (Some transform_rule) 10 of
                  (db', ok) \<Rightarrow>
                    if ok then (db', created + 1, failed) else (db', created, failed + 1))))"

definition bitmart_loop ::
  "constraints \<Rightarrow> int \<Rightarrow> int \<Rightarrow> (string \<times> string \<times> transformation \<times> string) list \<Rightarrow>
     database \<Rightarrow> database \<times> nat \<times> nat" where
  "bitmart_loop accepts vid cid ms db = fold (bitmart_step accepts vid cid) ms (db, 0, 0)"

text \<open>\<open>map_bitmart_ticker_fields\<close>: the database after the pass and the returned count.\<close>

definition map_bitmart_ticker_fields :: "constraints \<Rightarrow> database \<Rightarrow> database \<times> nat" where
  "map_bitmart_ticker_fields accepts db =
     (case get_vendor_id db ''bitmart'' of
        None \<Rightarrow> (db, 0)
      | Some vid \<Rightarrow>
          if vid = 0 then (db, 0)
          else
            (case get_websocket_channel_id db vid ''spot/ticker'' of
               None \<Rightarrow> (db, 0)
             | Some cid \<Rightarrow>
                 if cid = 0 then (db, 0)
                 else
                   (case bitmart_loop accepts vid cid bitmart_mappings db of
                      (db', created, failed) \<Rightarrow> (db', created))))"




section \<open>create_korbit_mappings.py and create_zaif_mappings.py\<close>

text \<open>
  Both scripts report through the logger. The log lines a pass writes are its second
  result: one event for the early return taken, one for each proposed mapping, and the
  final count.
\<close>

datatype log_event =
    Vendor_not_found
  | No_sources_found
  | No_ticker_source_found
  | Proposed string string int
  | Proposed_field_not_found string string
  | Skipped_field_not_found string string
  | Already_exists string string
  | Created string string
  | Failed string string
  | Created_total nat

definition korbit_proposed :: "(string \<times> string \<times> transformation) list" where
  "korbit_proposed =
     [(''last'', ''last_price'', String_to_numeric),
      (''bid'', ''bid_price'', String_to_numeric),
      (''ask'', ''ask_price'', String_to_numeric),
      (''open'', ''open_24h'', String_to_numeric),
      (''high'', ''high_24h'', String_to_numeric),
      (''low'', ''low_24h'', String_to_numeric),
      (''volume'', ''volume_24h'', String_to_numeric),
      (''timestamp'', ''timestamp'', Ms_to_datetime),
      (''currency_pair'', ''symbol'', Identity)]"

definition zaif_proposed :: "(string \<times> string \<times> transformation) list" where
  "zaif_proposed =
     [(''last'', ''last_price'', Identity),
      (''high'', ''high_24h'', Identity),
      (''low'', ''low_24h'', Identity),
      (''volume'', ''volume_24h'', Identity),
      (''bid'', ''bid_price'', Identity),
      (''ask'', ''ask_price'', Identity),
      (''last_price'', ''last_price'', Identity)]"

text \<open>The dry-run branch, the same in both scripts: one log line for each proposal.\<close>

definition dry_run_line :: "database \<Rightarrow> string \<times> string \<times> transformation \<Rightarrow> log_event" where
  "dry_run_line db m =
     (case m of (vendor_field, canonical_field, transform) \<Rightarrow>
        (case get_canonical_field_id db canonical_field of
           None \<Rightarrow> Proposed_field_not_found vendor_field canonical_field
         | Some canonical_id \<Rightarrow>
             if canonical_id = 0 then Proposed_field_not_found vendor_field canonical_field
             else Proposed vendor_field canonical_field canonical_id))"

text \<open>
  The existence check of both scripts: a row of the same vendor, path and canonical
  field, whatever its source.
\<close>

definition existing_by_path :: "database \<Rightarrow> int \<Rightarrow> string \<Rightarrow> int \<Rightarrow> field_mapping list" where
  "existing_by_path db vid vendor_field canonical_id =
     filter (\<lambda>r. fm_vendor_id r = vid \<and> vendor_field_path r = vendor_field \<and>
                 fm_canonical_field_id r = canonical_id)
       (field_mappings db)"

text \<open>
  One turn of the loop of \<open>KorbitTickerMapper.create_mappings\<close> on the state
  (database, \<open>created_count\<close>, log). An INSERT the database refuses raises; the
  \<open>except\<close> branch logs it and the loop goes on.
\<close>

definition korbit_step ::
  "constraints \<Rightarrow> int \<Rightarrow> int \<Rightarrow> string \<times> string \<times> transformation \<Rightarrow>
     database \<times> nat \<times> log_event list \<Rightarrow> database \<times> nat \<times> log_event list" where
  "korbit_step accepts vid ticker_channel_id m s =
     (case (m, s) of ((vendor_field, canonical_field, transform), (db, created, logged)) \<Rightarrow>
        (case get_canonical_field_id db canonical_field of
           None \<Rightarrow> (db, created, logged @ [Skipped_field_not_found vendor_field canonical_field])
         | Some canonical_id \<Rightarrow>
             if canonical_id = 0
             then (db, created, logged @ [Skipped_field_not_found vendor_field canonical_field])
             else if fetchone (existing_by_path db vid vendor_field canonical_id) \<noteq> None
             then (db, created, logged @ [Already_exists vendor_field canonical_field])
             else
               let r = \<lparr>mapping_id = next_mapping_id db, fm_vendor_id = vid,
                        fm_canonical_field_id = canonical_id, source_type = ''websocket'',
                        entity_type = ''ticker'', vendor_field_path = vendor_field,
                        fm_endpoint_id = None, fm_channel_id = Some ticker_channel_id,
                        transformation_rule = Some transform, priority = default_priority,
                        is_active = default_is_active\<rparr>
               in if accepts db r
                  then (insert_field_mapping db r, created + 1,
                        logged @ [Created vendor_field canonical_field])
                  else (db, created, logged @ [Failed vendor_field canonical_field])))"

definition korbit_loop ::
  "constraints \<Rightarrow> int \<Rightarrow> int \<Rightarrow> (string \<times> string \<times> transformation) list \<Rightarrow>
     database \<Rightarrow> database \<times> nat \<times> log_event list" where
  "korbit_loop accepts vid cid ms db = fold (korbit_step accepts vid cid) ms (db, 0, [])"

definition korbit_create_mappings ::
  "constraints \<Rightarrow> bool \<Rightarrow> database \<Rightarrow> database \<times> log_event list" where
  "korbit_create_mappings accepts dry_run db =
     (case get_vendor_id db ''korbit'' of
        None \<Rightarrow> (db, [Vendor_not_found])
      | Some vid \<Rightarrow>
          if vid = 0 then (db, [Vendor_not_found])
          else
            let channels = get_websocket_channels db vid
            in if channels = [] then (db, [No_sources_found])
               else
                 (case find (\<lambda>c. contains ''ticker'' (lower (channel_name c))) channels of
                    None \<Rightarrow> (db, [No_ticker_source_found])
                  | Some channel \<Rightarrow>
                      if channel_id channel = 0 then (db, [No_ticker_source_found])
                      else if dry_run then (db, map (dry_run_line db) korbit_proposed)
                      else
                        (case korbit_loop accepts vid (channel_id channel) korbit_proposed db of
                           (db', created, logged) \<Rightarrow> (db', logged @ [Created_total created]))))"

text \<open>
  \<open>ZaifTickerMapper.create_mappings\<close>. The loop over the endpoints keeps the last
  endpoint whose path holds the ticker path, and the last one whose path holds the
  last-price path and not the ticker path; either stays \<open>None\<close> when there is none.
\<close>

definition zaif_pick_endpoints :: "rest_endpoint list \<Rightarrow> int option \<times> int option" where
  "zaif_pick_endpoints endpoints =
     fold (\<lambda>endpoint (ticker_endpoint_id, last_price_endpoint_id).
             if contains ''/api/1/ticker/{currency_pair}'' (path endpoint)
             then (Some (endpoint_id endpoint), last_price_endpoint_id)
             else if contains ''/api/1/last_price/{currency_pair}'' (path endpoint)
             then (ticker_endpoint_id, Some (endpoint_id endpoint))
             else (ticker_endpoint_id, last_price_endpoint_id))
       endpoints (None, None)"

definition zaif_step ::
  "constraints \<Rightarrow> int \<Rightarrow> int option \<Rightarrow> int option \<Rightarrow> string \<times> string \<times> transformation \<Rightarrow>
     database \<times> nat \<times> log_event list \<Rightarrow> database \<times> nat \<times> log_event list" where
  "zaif_step accepts vid ticker_endpoint_id last_price_endpoint_id m s =
     (case (m, s) of ((vendor_field, canonical_field, transform), (db, created, logged)) \<Rightarrow>
        (case get_canonical_field_id db canonical_field of
           None \<Rightarrow> (db, created, logged @ [Skipped_field_not_found vendor_field canonical_field])
         | Some canonical_id \<Rightarrow>
             if canonical_id = 0
             then (db, created, logged @ [Skipped_field_not_found vendor_field canonical_field])
             else
               let endpoint = (if vendor_field = ''last_price'' then last_price_endpoint_id
                               else ticker_endpoint_id)
               in if fetchone (existing_by_path db vid vendor_field canonical_id) \<noteq> None
                  then (db, created, logged @ [Already_exists vendor_field canonical_field])
                  else
                    let r = \<lparr>mapping_id = next_mapping_id db, fm_vendor_id = vid,
                             fm_canonical_field_id = canonical_id, source_type = ''rest'',
                             entity_type = ''ticker'', vendor_field_path = vendor_field,
                             fm_endpoint_id = endpoint, fm_channel_id = None,
                             transformation_rule = Some transform,
                             priority = default_priority, is_active = default_is_active\<rparr>
                    in if accepts db r
                       then (insert_field_mapping db r, created + 1,
                             logged @ [Created vendor_field canonical_field])
                       else (db, created, logged @ [Failed vendor_field canonical_field])))"

definition zaif_loop ::
  "constraints \<Rightarrow> int \<Rightarrow> int option \<Rightarrow> int option \<Rightarrow> (string \<times> string \<times> transformation) list \<Rightarrow>
     database \<Rightarrow> database \<times> nat \<times> log_event list" where
  "zaif_loop accepts vid te le ms db = fold (zaif_step accepts vid te le) ms (db, 0, [])"

definition zaif_create_mappings ::
  "constraints \<Rightarrow> bool \<Rightarrow> database \<Rightarrow> database \<times> log_event list" where
  "zaif_create_mappings accepts dry_run db =
     (case get_vendor_id db ''zaif'' of
        None \<Rightarrow> (db, [Vendor_not_found])
      | Some vid \<Rightarrow>
          if vid = 0 then (db, [Vendor_not_found])
          else
            let endpoints = get_rest_endpoints db vid
            in if endpoints = [] then (db, [No_sources_found])
               else
                 (case zaif_pick_endpoints endpoints of
                    (ticker_endpoint_id, last_price_endpoint_id) \<Rightarrow>
                      if \<not> truthy ticker_endpoint_id then (db, [No_ticker_source_found])
                      else if dry_run then (db, map (dry_run_line db) zaif_proposed)
                      else
                        (case zaif_loop accepts vid ticker_endpoint_id last_price_endpoint_id
                                zaif_proposed db of
                           (db', created, logged) \<Rightarrow> (db', logged @ [Created_total created]))))"

section \<open>update_status.py\<close>

text \<open>
  Python computes the percentages in floating point; the model computes them in exact
  rational arithmetic. \<open>round(x, 1)\<close> rounds to the nearest tenth, a value half-way
  between two tenths to the even one.
\<close>

definition py_round1 :: "rat \<Rightarrow> rat" where
  "py_round1 x =
     (let y = x * 10; f = \<lfloor>y\<rfloor>; d = y - of_int f
      in of_int (if d < 1 / 2 then f else if 1 / 2 < d then f + 1
                 else if even f then f else f + 1) / 10)"

text \<open>\<open>xs[:limit]\<close>: a negative limit counts from the end.\<close>

definition py_slice_to :: "int \<Rightarrow> 'a list \<Rightarrow> 'a list" where
  "py_slice_to limit xs =
     (if 0 \<le> limit then take (nat limit) xs else take (length xs - nat (- limit)) xs)"

text \<open>The join of \<open>get_total_canonical_ticker_fields\<close>: one row for each matching triple.\<close>

definition get_total_canonical_ticker_fields :: "database \<Rightarrow> nat" where
  "get_total_canonical_ticker_fields db =
     length [(cf, dtf, cdt).
               cf \<leftarrow> canonical_fields db,
               dtf \<leftarrow> data_type_fields db,
               canonical_field_id cf = dtf_canonical_field_id dtf,
               cdt \<leftarrow> canonical_data_types db,
               dtf_data_type_id dtf = data_type_id cdt,
               data_type_name cdt = ''ticker'']"

text \<open>
  The query of \<open>get_exchange_ticker_coverage\<close>. Vendors are grouped by name; a group
  counts the joined \<open>field_mappings\<close> rows with entity type ticker, whatever their
  canonical field, source and \<open>is_active\<close>. The result is ordered by that count,
  largest first. SQL fixes no order among groups of equal count: the model keeps them
  in the order of the \<open>vendors\<close> table.
\<close>

definition count_ticker_mappings :: "database \<Rightarrow> string \<Rightarrow> nat" where
  "count_ticker_mappings db name =
     length [(v, fm).
               v \<leftarrow> vendors db, vendor_name v = name,
               fm \<leftarrow> field_mappings db,
               vendor_id v = fm_vendor_id fm \<and> entity_type fm = ''ticker'']"

definition ticker_mappings_query :: "database \<Rightarrow> (string \<times> nat) list" where
  "ticker_mappings_query db =
     sort_key (\<lambda>(name, ticker_mappings). - int ticker_mappings)
       (map (\<lambda>name. (name, count_ticker_mappings db name))
          (remdups (map vendor_name (vendors db))))"

definition get_exchange_ticker_coverage :: "database \<Rightarrow> (string \<times> nat \<times> rat) list" where
  "get_exchange_ticker_coverage db =
     (let total_ticker_fields = get_total_canonical_ticker_fields db
      in if total_ticker_fields = 0 then []
         else map (\<lambda>(name, ticker_mappings).
                     (name, ticker_mappings,
                      py_round1 (if 0 < total_ticker_fields
                                 then of_nat ticker_mappings / of_nat total_ticker_fields * 100
                                 else 0)))
                (ticker_mappings_query db))"

text \<open>
  \<open>get_coverage_leaders\<close>: \<open>sort(key, reverse=True)\<close> is stable, entries of equal
  coverage keep their order; sorting by the negated key is the same.
\<close>

definition get_coverage_leaders :: "int \<Rightarrow> database \<Rightarrow> (string \<times> rat) list" where
  "get_coverage_leaders limit db =
     map (\<lambda>(name, ticker_mappings, coverage). (name, coverage))
       (py_slice_to limit
          (sort_key (\<lambda>(name, ticker_mappings, coverage). - coverage)
             (get_exchange_ticker_coverage db)))"


section \<open>create_rest_mappings_demo.py\<close>

text \<open>
  The coverage query of \<open>RestTickerMapper.verify_mappings\<close>. For a vendor and a data
  type named ticker, \<open>type_field_ids\<close> are the canonical fields joined to the type
  through \<open>data_type_fields\<close> (the inner joins; a vendor and type with none give no
  row), \<open>rest_mapped_ids\<close> the canonical fields of the left-joined mappings: active,
  of the vendor, of the entity type and of source type rest. Both are counted
  DISTINCT. The groups are taken by the primary keys of the two tables. SQLite's
  \<open>ROUND(x, 1)\<close> rounds a value half-way between two tenths away from zero.
\<close>

definition sql_round1 :: "rat \<Rightarrow> rat" where
  "sql_round1 x =
     (let y = \<bar>x\<bar> * 10; f = \<lfloor>y\<rfloor>; d = y - of_int f
      in sgn x * of_int (if d < 1 / 2 then f else f + 1) / 10)"

definition type_field_ids :: "database \<Rightarrow> canonical_data_type \<Rightarrow> int list" where
  "type_field_ids db dt =
     [canonical_field_id cf.
        dtf \<leftarrow> data_type_fields db, data_type_id dt = dtf_data_type_id dtf,
        cf \<leftarrow> canonical_fields db, dtf_canonical_field_id dtf = canonical_field_id cf]"

definition rest_mapped_ids :: "database \<Rightarrow> vendor \<Rightarrow> canonical_data_type \<Rightarrow> int list" where
  "rest_mapped_ids db v dt =
     [fm_canonical_field_id fm.
        cfid \<leftarrow> type_field_ids db dt,
        fm \<leftarrow> field_mappings db,
        vendor_id v = fm_vendor_id fm \<and> cfid = fm_canonical_field_id fm \<and> is_active fm \<and>
        entity_type fm = data_type_name dt \<and> source_type fm = ''rest'']"

definition verify_ticker_coverage ::
  "database \<Rightarrow> (string \<times> string \<times> nat \<times> nat \<times> rat) list" where
  "verify_ticker_coverage db =
     sort_key fst
       [(vendor_name v, data_type_name dt,
         length (remdups (type_field_ids db dt)),
         length (remdups (rest_mapped_ids db v dt)),
         sql_round1 (of_nat (length (remdups (rest_mapped_ids db v dt))) * 100
                     / of_nat (length (remdups (type_field_ids db dt))))).
          v \<leftarrow> vendors db,
          dt \<leftarrow> canonical_data_types db,
          data_type_name dt = ''ticker'',
          type_field_ids db dt \<noteq> []]"

section \<open>Resolution\<close>

text \<open>
  Rows of \<open>field_mappings\<close> stand in the order of their creation. \<open>best\<close> keeps the
  row of highest priority, and of several rows of that priority the last.
\<close>

fun best :: "field_mapping list \<Rightarrow> field_mapping option" where
  "best [] = None"
| "best (r # rs) =
     (case best rs of
        None \<Rightarrow> Some r
      | Some b \<Rightarrow> if priority b < priority r then Some r else Some b)"

definition resolve ::
  "database \<Rightarrow> int \<Rightarrow> string \<Rightarrow> string \<Rightarrow> (string \<times> field_mapping option) list" where
  \<comment> \<open>Modelled from the spec: no function of the sources resolves a canonical field to
      a mapping. Section 4.2: for each canonical field required by the entity type
      (through \<open>data_type_fields\<close>), the highest-priority active mapping whose vendor,
      entity type and source type match, ties broken by the most recently created; a
      field without such a mapping is reported unmapped (\<open>None\<close>).\<close>
  "resolve db vid etype stype =
     [(field_name cf,
       best (filter (\<lambda>r. fm_vendor_id r = vid \<and> entity_type r = etype \<and>
                           source_type r = stype \<and>
                           fm_canonical_field_id r = canonical_field_id cf \<and> is_active r)
               (field_mappings db))).
        dt \<leftarrow> canonical_data_types db, data_type_name dt = etype,
        dtf \<leftarrow> data_type_fields db, dtf_data_type_id dtf = data_type_id dt,
        cf \<leftarrow> canonical_fields db, canonical_field_id cf = dtf_canonical_field_id dtf]"

section \<open>Reading the stored rows and the logs\<close>

text \<open>The rows that carry a given natural key.\<close>

definition natural_key_rows ::
  "database \<Rightarrow> int \<Rightarrow> int \<Rightarrow> string \<Rightarrow> string \<Rightarrow> int option \<Rightarrow> int option \<Rightarrow> field_mapping list" where
  "natural_key_rows db vid cfid stype vpath ep ch =
     filter (\<lambda>r. fm_vendor_id r = vid \<and> fm_canonical_field_id r = cfid \<and> source_type r = stype \<and>
                 vendor_field_path r = vpath \<and> fm_endpoint_id r = ep \<and> fm_channel_id r = ch)
       (field_mappings db)"



text \<open>
  The invariant of a mapping's source: exactly one of the two references is set, it
  is the one the source type names, and the row it points to is of the mapping's vendor.
\<close>

definition has_one_source :: "database \<Rightarrow> field_mapping \<Rightarrow> bool" where
  "has_one_source db r =
     (case (fm_endpoint_id r, fm_channel_id r) of
        (Some e, None) \<Rightarrow>
          source_type r = ''rest'' \<and>
          (\<exists>ep \<in> set (rest_endpoints db). endpoint_id ep = e \<and> ep_vendor_id ep = fm_vendor_id r)
      | (None, Some c) \<Rightarrow>
          source_type r = ''websocket'' \<and>
          (\<exists>ch \<in> set (websocket_channels db). channel_id ch = c \<and> ch_vendor_id ch = fm_vendor_id r)
      | _ \<Rightarrow> False)"




section \<open>Example databases\<close>

definition empty_db :: database where
  "empty_db = \<lparr>vendors = [], canonical_data_types = [], canonical_fields = [],
     data_type_fields = [], rest_endpoints = [], websocket_channels = [], field_mappings = []\<rparr>"

definition small_db :: database where
  "small_db = empty_db
     \<lparr>vendors := [\<lparr>vendor_id = 1, vendor_name = ''korbit''\<rparr>],
      canonical_data_types := [\<lparr>data_type_id = 1, data_type_name = ''ticker''\<rparr>],
      canonical_fields := [\<lparr>canonical_field_id = 1, field_name = ''last_price''\<rparr>,
                           \<lparr>canonical_field_id = 2, field_name = ''ask_price''\<rparr>],
      data_type_fields := [\<lparr>dtf_data_type_id = 1, dtf_canonical_field_id = 1\<rparr>,
                           \<lparr>dtf_data_type_id = 1, dtf_canonical_field_id = 2\<rparr>],
      websocket_channels := [\<lparr>channel_id = 7, ch_vendor_id = 1, channel_name = ''ticker''\<rparr>]\<rparr>"

definition bitmart_db :: database where
  "bitmart_db = empty_db
     \<lparr>vendors := [\<lparr>vendor_id = 1, vendor_name = ''bitmart''\<rparr>],
      canonical_data_types := [\<lparr>data_type_id = 1, data_type_name = ''ticker''\<rparr>],
      canonical_fields := [\<lparr>canonical_field_id = 1, field_name = ''last_price''\<rparr>],
      data_type_fields := [\<lparr>dtf_data_type_id = 1, dtf_canonical_field_id = 1\<rparr>],
      websocket_channels :=
        [\<lparr>channel_id = 4, ch_vendor_id = 1, channel_name = ''spot/ticker''\<rparr>]\<rparr>"

definition websocket_row :: field_mapping where
  "websocket_row =
     \<lparr>mapping_id = 1, fm_vendor_id = 1, fm_canonical_field_id = 1,
      source_type = ''websocket'', entity_type = ''ticker'',
      vendor_field_path = ''data[].last_price'', fm_endpoint_id = None,
      fm_channel_id = Some 4, transformation_rule = Some String_to_numeric,
      priority = 10, is_active = True\<rparr>"


definition tie_db :: database where
  "tie_db = empty_db
     \<lparr>vendors := [\<lparr>vendor_id = 1, vendor_name = ''zaif''\<rparr>,
                  \<lparr>vendor_id = 2, vendor_name = ''bitmart''\<rparr>],
      canonical_data_types := [\<lparr>data_type_id = 1, data_type_name = ''ticker''\<rparr>],
      canonical_fields := [\<lparr>canonical_field_id = 1, field_name = ''last_price''\<rparr>],
      data_type_fields := [\<lparr>dtf_data_type_id = 1, dtf_canonical_field_id = 1\<rparr>]\<rparr>"

definition zaif_db :: database where
  "zaif_db = empty_db
     \<lparr>vendors := [\<lparr>vendor_id = 3, vendor_name = ''zaif''\<rparr>],
      canonical_data_types := [\<lparr>data_type_id = 1, data_type_name = ''ticker''\<rparr>],
      canonical_fields := [\<lparr>canonical_field_id = 1, field_name = ''last_price''\<rparr>],
      data_type_fields := [\<lparr>dtf_data_type_id = 1, dtf_canonical_field_id = 1\<rparr>],
      rest_endpoints :=
        [\<lparr>endpoint_id = 9, ep_vendor_id = 3, path = ''/api/1/ticker/{currency_pair}'',
          http_method = ''GET''\<rparr>]\<rparr>"

definition rest_row :: field_mapping where
  "rest_row =
     \<lparr>mapping_id = 1, fm_vendor_id = 2, fm_canonical_field_id = 1,
      source_type = ''rest'', entity_type = ''ticker'', vendor_field_path = ''last'',
      fm_endpoint_id = Some 5, fm_channel_id = None, transformation_rule = Some Identity,
      priority = 0, is_active = True\<rparr>"

definition korbit_rest_db :: database where
  "korbit_rest_db = empty_db
     \<lparr>vendors := [\<lparr>vendor_id = 2, vendor_name = ''korbit''\<rparr>],
      canonical_data_types := [\<lparr>data_type_id = 1, data_type_name = ''ticker''\<rparr>],
      canonical_fields := [\<lparr>canonical_field_id = 1, field_name = ''last_price''\<rparr>],
      data_type_fields := [\<lparr>dtf_data_type_id = 1, dtf_canonical_field_id = 1\<rparr>],
      rest_endpoints :=
        [\<lparr>endpoint_id = 5, ep_vendor_id = 2, path = ''/v1/ticker'', http_method = ''GET''\<rparr>],
      websocket_channels := [\<lparr>channel_id = 7, ch_vendor_id = 2, channel_name = ''ticker''\<rparr>],
      field_mappings := [rest_row]\<rparr>"


text \<open>
  Deactivating a mapping is an UPDATE of its \<open>is_active\<close> column; the row stays.
\<close>

definition set_is_active :: "int \<Rightarrow> bool \<Rightarrow> database \<Rightarrow> database" where
  "set_is_active mid flag db =
     db\<lparr>field_mappings :=
          map (\<lambda>r. if mapping_id r = mid then r\<lparr>is_active := flag\<rparr> else r) (field_mappings db)\<rparr>"

section \<open>Frame and loop lemmas\<close>

lemma get_canonical_field_id_cong:
  "canonical_fields db' = canonical_fields db \<Longrightarrow>
   get_canonical_field_id db' name = get_canonical_field_id db name"
  by (simp add: get_canonical_field_id_def)

lemma insert_field_mapping_frame:
  "vendors (insert_field_mapping db r) = vendors db"
  "canonical_data_types (insert_field_mapping db r) = canonical_data_types db"
  "canonical_fields (insert_field_mapping db r) = canonical_fields db"
  "data_type_fields (insert_field_mapping db r) = data_type_fields db"
  "rest_endpoints (insert_field_mapping db r) = rest_endpoints db"
  "websocket_channels (insert_field_mapping db r) = websocket_channels db"
  "field_mappings (insert_field_mapping db r) = field_mappings db @ [r]"
  by (simp_all add: insert_field_mapping_def)



lemma bitmart_step_simp:
  "bitmart_step accepts vid cid (vp, cn, tr, et) (db, c, f) =
     (case get_canonical_field_id db cn of
        None \<Rightarrow> (db, c, f + 1)
      | Some cfid \<Rightarrow>
          if cfid = 0 then (db, c, f + 1)
          else if snd (bitmart_create_field_mapping accepts db vid cfid vp cid et (Some tr) 10)
          then (fst (bitmart_create_field_mapping accepts db vid cfid vp cid et (Some tr) 10), c + 1, f)
          else (fst (bitmart_create_field_mapping accepts db vid cfid vp cid et (Some tr) 10), c, f + 1))"
  by (simp add: bitmart_step_def split: option.split prod.split)










lemma korbit_step_simp:
  "korbit_step accepts vid cid (vf, cn, tr) (db, c, l) =
     (case get_canonical_field_id db cn of
        None \<Rightarrow> (db, c, l @ [Skipped_field_not_found vf cn])
      | Some i \<Rightarrow>
          if i = 0 then (db, c, l @ [Skipped_field_not_found vf cn])
          else if existing_by_path db vid vf i \<noteq> [] then (db, c, l @ [Already_exists vf cn])
          else if accepts db
                 \<lparr>mapping_id = next_mapping_id db, fm_vendor_id = vid,
                  fm_canonical_field_id = i, source_type = ''websocket'',
                  entity_type = ''ticker'', vendor_field_path = vf,
                  fm_endpoint_id = None, fm_channel_id = Some cid,
                  transformation_rule = Some tr, priority = default_priority,
                  is_active = default_is_active\<rparr>
          then (insert_field_mapping db
                 \<lparr>mapping_id = next_mapping_id db, fm_vendor_id = vid,
                  fm_canonical_field_id = i, source_type = ''websocket'',
                  entity_type = ''ticker'', vendor_field_path = vf,
                  fm_endpoint_id = None, fm_channel_id = Some cid,
                  transformation_rule = Some tr, priority = default_priority,
                  is_active = default_is_active\<rparr>, c + 1, l @ [Created vf cn])
          else (db, c, l @ [Failed vf cn]))"
  by (simp add: korbit_step_def fetchone_def Let_def split: option.split list.split)





















section \<open>Skip and continue on an unknown canonical field\<close>



section \<open>Priority resolution\<close>

lemma best_None: "best rs = None \<longleftrightarrow> rs = []"
  by (cases rs) (auto split: option.splits)

lemma best_in_set: "best rs = Some b \<Longrightarrow> b \<in> set rs"
  by (induction rs arbitrary: b) (auto split: option.splits if_splits)

lemma best_highest_priority: "best rs = Some b \<Longrightarrow> r \<in> set rs \<Longrightarrow> priority r \<le> priority b"
  by (induction rs arbitrary: b) (fastforce simp: best_None split: option.splits if_splits)+

lemma best_tie_latest:
  "\<forall>x \<in> set xs. priority x \<le> priority r \<Longrightarrow> \<forall>y \<in> set ys. priority y < priority r \<Longrightarrow>
   best (xs @ r # ys) = Some r"
proof (induction xs)
  case Nil
  show ?case
  proof (cases "best ys")
    case None
    then show ?thesis by simp
  next
    case (Some b)
    then have "b \<in> set ys" by (rule best_in_set)
    with Nil Some show ?thesis by auto
  qed
next
  case (Cons x xs)
  then show ?case by auto
qed

text \<open>
  Registered through \<open>create_field_mapping\<close> with the priorities 10 and 0 of the
  scenario, the two mappings resolve to the \<open>last_price\<close> path.
\<close>

lemma scenario_priorities_10_and_0:
  "map (\<lambda>(name, r). (name, map_option vendor_field_path r))
     (resolve
        (fst (bitmart_create_field_mapping schema_accepts
               (fst (bitmart_create_field_mapping schema_accepts bitmart_db 1 1
                       ''data[].last_price'' 4 ''ticker'' (Some String_to_numeric) 10))
               1 1 ''data[].close_24h'' 4 ''ticker'' (Some String_to_numeric) 0))
        1 ''ticker'' ''websocket'') =
     [(''last_price'', Some ''data[].last_price'')]"
  by code_simp


section \<open>Counting the rows of a join\<close>

lemma sum_list_indicator: "sum_list (map (\<lambda>x. if P x then Suc 0 else 0) xs) = length (filter P xs)"
  by (induction xs) auto

lemma length_concat_guarded:
  "length (concat (map (\<lambda>x. if P x then g x else []) xs)) =
     sum_list (map (\<lambda>x. if P x then length (g x) else 0) xs)"
  by (induction xs) auto

lemma length_concat_plain:
  "length (concat (map g xs)) = sum_list (map (\<lambda>x. length (g x)) xs)"
  by (induction xs) auto

lemma length_concat_two_guards:
  "length (concat (map (\<lambda>c. if A c then (if B c then [h c] else []) else []) cs)) =
     length (filter A (filter B cs))"
  by (induction cs) auto

lemma length_concat_single:
  "length (concat (map (\<lambda>y. if Q y then [h y] else []) ys)) = length (filter Q ys)"
  by (induction ys) auto

lemma filter_key_single:
  "distinct (map f xs) \<Longrightarrow> x \<in> set xs \<Longrightarrow> filter (\<lambda>y. f y = f x) xs = [x]"
proof (induction xs)
  case Nil
  then show ?case by simp
next
  case (Cons a xs)
  show ?case
  proof (cases "a = x")
    case True
    have "f a \<notin> f ` set xs" using Cons.prems(1) by simp
    then have "\<forall>y \<in> set xs. f y \<noteq> f a" by (metis image_eqI)
    then have "filter (\<lambda>y. f y = f x) xs = []"
      using True by (simp add: filter_empty_conv)
    then show ?thesis using True by simp
  next
    case False
    then have "x \<in> set xs" using Cons.prems(2) by simp
    moreover have "f a \<noteq> f x" using Cons.prems(1) \<open>x \<in> set xs\<close> by auto
    ultimately show ?thesis using Cons by simp
  qed
qed

lemma length_filter_key:
  "distinct (map f xs) \<Longrightarrow> length (filter (\<lambda>x. f x = k) xs) = (if k \<in> f ` set xs then 1 else 0)"
proof (induction xs)
  case Nil
  then show ?case by simp
next
  case (Cons a xs)
  then show ?case by (auto simp: filter_empty_conv)
qed

lemma sum_list_nested_indicator:
  "sum_list (map (\<lambda>x. if P x then (if Q x then Suc 0 else 0) else 0) xs) =
     length (filter (\<lambda>x. P x \<and> Q x) xs)"
  by (induction xs) auto

section \<open>Coverage as counted by update_status.py\<close>

text \<open>
  C3. \<open>get_exchange_ticker_coverage\<close> counts rows, not distinct canonical fields:
  after the bitmart pass on a database with one canonical ticker field, the two rows
  mapped to that one field give \<open>ticker_mappings = 2\<close> and a coverage of 200 percent.
\<close>

theorem coverage_counts_every_row:
  "get_total_canonical_ticker_fields (fst (map_bitmart_ticker_fields schema_accepts bitmart_db)) = 1 \<and>
   map fm_canonical_field_id
     (field_mappings (fst (map_bitmart_ticker_fields schema_accepts bitmart_db))) = [1, 1] \<and>
   get_exchange_ticker_coverage (fst (map_bitmart_ticker_fields schema_accepts bitmart_db)) =
     [(''bitmart'', 2, 200)]"
  by code_simp

text \<open>
  The coverage of \<open>update_status.py\<close> is the same whatever the \<open>is_active\<close> column of
  any mapping holds.
\<close>

lemma count_ticker_mappings_set_is_active:
  "count_ticker_mappings (set_is_active mid flag db) name = count_ticker_mappings db name"
proof -
  define g :: "field_mapping \<Rightarrow> field_mapping" where "g = (\<lambda>r. if mapping_id r = mid then r\<lparr>is_active := flag\<rparr> else r)"
  have fm: "field_mappings (set_is_active mid flag db) = map g (field_mappings db)"
    and vs: "vendors (set_is_active mid flag db) = vendors db"
    by (simp_all add: set_is_active_def g_def)
  have keep: "fm_vendor_id (g r) = fm_vendor_id r" "entity_type (g r) = entity_type r" for r
    by (simp_all add: g_def)
  have inner: "length (filter (\<lambda>fm. vendor_id u = fm_vendor_id fm \<and> entity_type fm = ''ticker'')
                         (map g (field_mappings db))) =
               length (filter (\<lambda>fm. vendor_id u = fm_vendor_id fm \<and> entity_type fm = ''ticker'')
                         (field_mappings db))" for u
    by (simp add: filter_map comp_def keep)
  show ?thesis
    unfolding count_ticker_mappings_def fm vs
    apply (subst (1 2) length_concat_guarded)
    apply (simp only: length_concat_single inner cong: if_cong)
    done
qed

lemma coverage_ignores_is_active:
  "get_exchange_ticker_coverage (set_is_active mid flag db) = get_exchange_ticker_coverage db"
proof -
  have frame: "canonical_fields (set_is_active mid flag db) = canonical_fields db"
    "data_type_fields (set_is_active mid flag db) = data_type_fields db"
    "canonical_data_types (set_is_active mid flag db) = canonical_data_types db"
    by (simp_all add: set_is_active_def)
  have total: "get_total_canonical_ticker_fields (set_is_active mid flag db) =
          get_total_canonical_ticker_fields db"
    unfolding get_total_canonical_ticker_fields_def frame ..
  have query: "ticker_mappings_query (set_is_active mid flag db) = ticker_mappings_query db"
    unfolding ticker_mappings_query_def count_ticker_mappings_set_is_active
    by (simp add: set_is_active_def)
  show ?thesis
    unfolding get_exchange_ticker_coverage_def total query ..
qed

text \<open>
  C5. Adding an active ticker mapping for an unmapped field raises the count of
  \<open>get_exchange_ticker_coverage\<close> from 0 to 1; setting \<open>is_active\<close> of that mapping to
  false keeps the row and leaves the count at 1 and the coverage at 100 percent: the
  query does not look at \<open>is_active\<close>.
\<close>

theorem deactivated_mapping_still_counted:
  "get_exchange_ticker_coverage bitmart_db = [(''bitmart'', 0, 0)] \<and>
   get_exchange_ticker_coverage (bitmart_db\<lparr>field_mappings := [websocket_row]\<rparr>) =
     [(''bitmart'', 1, 100)] \<and>
   map is_active
     (field_mappings (set_is_active 1 False (bitmart_db\<lparr>field_mappings := [websocket_row]\<rparr>))) =
     [False] \<and>
   get_exchange_ticker_coverage
     (set_is_active 1 False (bitmart_db\<lparr>field_mappings := [websocket_row]\<rparr>)) =
     [(''bitmart'', 1, 100)]"
  by code_simp

section \<open>The source of a mapping\<close>

text \<open>
  Every row that a pass of the korbit or of the bitmart script adds has one source, the
  ticker channel of the vendor.
\<close>

lemma fetchone_filter_Some:
  "fetchone (filter P xs) = Some x \<Longrightarrow> x \<in> set xs \<and> P x"
  by (cases "filter P xs") (auto simp: fetchone_def dest: filter_eq_ConsD)

lemma korbit_step_rows:
  "set (field_mappings (fst (korbit_step accepts vid cid m (db, c, l)))) \<subseteq>
     set (field_mappings db) \<union>
     {r. fm_vendor_id r = vid \<and> source_type r = ''websocket'' \<and> fm_endpoint_id r = None \<and>
         fm_channel_id r = Some cid}"
proof -
  obtain vf cn tr where m: "m = (vf, cn, tr)" by (cases m) auto
  show ?thesis
    unfolding m korbit_step_simp
    by (cases "get_canonical_field_id db cn") (auto simp: insert_field_mapping_frame)
qed

lemma korbit_fold_rows:
  "set (field_mappings (fst (fold (korbit_step accepts vid cid) ms (db, c, l)))) \<subseteq>
     set (field_mappings db) \<union>
     {r. fm_vendor_id r = vid \<and> source_type r = ''websocket'' \<and> fm_endpoint_id r = None \<and>
         fm_channel_id r = Some cid}"
proof (induction ms arbitrary: db c l)
  case Nil
  show ?case by simp
next
  case (Cons m ms)
  obtain d c' l' where st: "korbit_step accepts vid cid m (db, c, l) = (d, c', l')"
    by (cases "korbit_step accepts vid cid m (db, c, l)") auto
  have "set (field_mappings d) \<subseteq> set (field_mappings db) \<union>
     {r. fm_vendor_id r = vid \<and> source_type r = ''websocket'' \<and> fm_endpoint_id r = None \<and>
         fm_channel_id r = Some cid}"
    using korbit_step_rows [of accepts vid cid m db c l] by (simp add: st)
  then show ?case
    unfolding fold_simps st using Cons.IH [of d c' l'] by blast
qed

lemma korbit_pass_sources:
  assumes "r \<in> set (field_mappings (fst (korbit_create_mappings accepts dry_run db)))"
  shows "r \<in> set (field_mappings db) \<or> has_one_source db r"
proof (cases "r \<in> set (field_mappings db)")
  case True
  then show ?thesis by simp
next
  case False
  then obtain vid ch where vid: "get_vendor_id db ''korbit'' = Some vid"
      and ch: "find (\<lambda>c. contains ''ticker'' (lower (channel_name c))) (get_websocket_channels db vid) = Some ch"
      and rows: "r \<in> set (field_mappings (fst (korbit_loop accepts vid (channel_id ch) korbit_proposed db)))"
    using assms
    by (auto simp: korbit_create_mappings_def Let_def case_prod_unfold
             split: option.splits if_splits)
  have "ch \<in> set (get_websocket_channels db vid)"
    using ch by (auto simp: find_Some_iff)
  then have own: "ch \<in> set (websocket_channels db)" "ch_vendor_id ch = vid"
    by (simp_all add: get_websocket_channels_def)
  have "fm_vendor_id r = vid \<and> source_type r = ''websocket'' \<and> fm_endpoint_id r = None \<and>
         fm_channel_id r = Some (channel_id ch)"
    using rows False korbit_fold_rows [of accepts vid "channel_id ch" korbit_proposed db 0 "[]"]
    by (auto simp: korbit_loop_def)
  then show ?thesis
    using own by (auto simp: has_one_source_def)
qed

lemma bitmart_step_rows:
  "set (field_mappings (fst (bitmart_step accepts vid cid m (db, c, f)))) \<subseteq>
     set (field_mappings db) \<union>
     {r. fm_vendor_id r = vid \<and> source_type r = ''websocket'' \<and> fm_endpoint_id r = None \<and>
         fm_channel_id r = Some cid}"
proof -
  obtain vp cn tr et where m: "m = (vp, cn, tr, et)" by (cases m) auto
  show ?thesis
    unfolding m bitmart_step_simp
    by (cases "get_canonical_field_id db cn")
       (auto simp: bitmart_create_field_mapping_def Let_def insert_field_mapping_frame
             split: if_splits)
qed

lemma bitmart_fold_rows:
  "set (field_mappings (fst (fold (bitmart_step accepts vid cid) ms (db, c, f)))) \<subseteq>
     set (field_mappings db) \<union>
     {r. fm_vendor_id r = vid \<and> source_type r = ''websocket'' \<and> fm_endpoint_id r = None \<and>
         fm_channel_id r = Some cid}"
proof (induction ms arbitrary: db c f)
  case Nil
  show ?case by simp
next
  case (Cons m ms)
  obtain d c' f' where st: "bitmart_step accepts vid cid m (db, c, f) = (d, c', f')"
    by (cases "bitmart_step accepts vid cid m (db, c, f)") auto
  have "set (field_mappings d) \<subseteq> set (field_mappings db) \<union>
     {r. fm_vendor_id r = vid \<and> source_type r = ''websocket'' \<and> fm_endpoint_id r = None \<and>
         fm_channel_id r = Some cid}"
    using bitmart_step_rows [of accepts vid cid m db c f] by (simp add: st)
  then show ?case
    unfolding fold_simps st using Cons.IH [of d c' f'] by blast
qed

lemma bitmart_pass_sources:
  assumes "r \<in> set (field_mappings (fst (map_bitmart_ticker_fields accepts db)))"
  shows "r \<in> set (field_mappings db) \<or> has_one_source db r"
proof (cases "r \<in> set (field_mappings db)")
  case True
  then show ?thesis by simp
next
  case False
  then obtain vid cid where vid: "get_vendor_id db ''bitmart'' = Some vid"
      and cid: "get_websocket_channel_id db vid ''spot/ticker'' = Some cid"
      and rows: "r \<in> set (field_mappings (fst (bitmart_loop accepts vid cid bitmart_mappings db)))"
    using assms
    by (auto simp: map_bitmart_ticker_fields_def case_prod_unfold split: option.splits if_splits)
  obtain ch where "fetchone (filter (\<lambda>c. ch_vendor_id c = vid \<and> channel_name c = ''spot/ticker'')
                      (websocket_channels db)) = Some ch" and "channel_id ch = cid"
    using cid by (auto simp: get_websocket_channel_id_def)
  then have own: "ch \<in> set (websocket_channels db)" "ch_vendor_id ch = vid" "channel_id ch = cid"
    using fetchone_filter_Some by fastforce+
  have "fm_vendor_id r = vid \<and> source_type r = ''websocket'' \<and> fm_endpoint_id r = None \<and>
         fm_channel_id r = Some cid"
    using rows False bitmart_fold_rows [of accepts vid cid bitmart_mappings db 0 0]
    by (auto simp: bitmart_loop_def)
  then show ?thesis
    using own by (auto simp: has_one_source_def)
qed

text \<open>
  C7. On a database where the vendor zaif has the ticker endpoint and no
  \<open>last_price\<close> endpoint, \<open>create_mappings\<close> of the zaif script finds the ticker
  endpoint alone, leaves \<open>last_price_endpoint_id\<close> at \<open>None\<close>, and stores the mapping of
  the vendor field \<open>last_price\<close> with neither an endpoint nor a channel: the row breaks
  the invariant.
\<close>

theorem zaif_last_price_without_endpoint:
  "map endpoint_id (get_rest_endpoints zaif_db 3) = [9] \<and>
   zaif_pick_endpoints (get_rest_endpoints zaif_db 3) = (Some 9, None) \<and>
   map (\<lambda>r. (vendor_field_path r, source_type r, fm_endpoint_id r, fm_channel_id r,
             has_one_source zaif_db r))
     (field_mappings (fst (zaif_create_mappings schema_accepts False zaif_db))) =
     [(''last'', ''rest'', Some 9, None, True), (''last_price'', ''rest'', None, None, False)]"
  by code_simp

section \<open>The guard against zero ticker fields\<close>






section \<open>The order of the coverage leaders\<close>





text \<open>
  Vendors of equal count come in the order of the query: with zaif stored before
  bitmart and no mapping for either, the leaders list zaif first.
\<close>

lemma leaders_tie_in_table_order:
  "get_coverage_leaders 5 tie_db = [(''zaif'', 0), (''bitmart'', 0)] \<and> ''bitmart'' < ''zaif''"
  by code_simp

section \<open>Dry runs\<close>

























section \<open>Registering a mapping twice\<close>

lemma filter_weaker_Nil:
  "filter Q xs = [] \<Longrightarrow> (\<And>x. P x \<Longrightarrow> Q x) \<Longrightarrow> filter P xs = []"
  by (auto simp: filter_empty_conv)

lemma bitmart_second_call:
  assumes "bitmart_create_field_mapping accepts db vid cfid vp cid et rule prio = (db1, ok)"
  shows "bitmart_create_field_mapping accepts db1 vid cfid vp cid et rule prio = (db1, ok)"
proof (cases "bitmart_existing db vid cfid vp cid = []")
  case False
  then have "db1 = db" "ok"
    using assms by (auto simp: bitmart_create_field_mapping_def fetchone_def split: list.splits)
  then show ?thesis using assms by simp
next
  case True
  define r where "r = \<lparr>mapping_id = next_mapping_id db, fm_vendor_id = vid,
                 fm_canonical_field_id = cfid, source_type = ''websocket'',
                 entity_type = et, vendor_field_path = vp, fm_endpoint_id = None,
                 fm_channel_id = Some cid, transformation_rule = rule, priority = prio,
                 is_active = True\<rparr>"
  show ?thesis
  proof (cases "accepts db r")
    case False
    then have "db1 = db"
      using assms True by (simp add: bitmart_create_field_mapping_def fetchone_def r_def)
    then show ?thesis using assms by simp
  next
    case acc: True
    then have db1: "db1 = insert_field_mapping db r" and ok: "ok"
      using assms True by (simp_all add: bitmart_create_field_mapping_def fetchone_def r_def)
    have "bitmart_existing db1 vid cfid vp cid = [r]"
      using True by (simp add: db1 bitmart_existing_def insert_field_mapping_frame r_def)
    then show ?thesis
      by (simp add: bitmart_create_field_mapping_def fetchone_def ok)
  qed
qed

lemma bitmart_exactly_one:
  assumes "bitmart_create_field_mapping accepts db vid cfid vp cid et rule prio = (db1, True)"
      and "bitmart_existing db vid cfid vp cid = []"
  shows "length (natural_key_rows db1 vid cfid ''websocket'' vp None (Some cid)) = 1"
proof -
  define r where "r = \<lparr>mapping_id = next_mapping_id db, fm_vendor_id = vid,
                 fm_canonical_field_id = cfid, source_type = ''websocket'',
                 entity_type = et, vendor_field_path = vp, fm_endpoint_id = None,
                 fm_channel_id = Some cid, transformation_rule = rule, priority = prio,
                 is_active = True\<rparr>"
  have db1: "db1 = insert_field_mapping db r"
    using assms
    by (simp add: bitmart_create_field_mapping_def fetchone_def r_def Let_def split: if_splits)
  have "natural_key_rows db vid cfid ''websocket'' vp None (Some cid) = []"
    unfolding natural_key_rows_def
    by (rule filter_weaker_Nil [OF assms(2) [unfolded bitmart_existing_def]]) simp
  then show ?thesis
    by (simp add: db1 natural_key_rows_def insert_field_mapping_frame r_def)
qed

lemma korbit_second_step:
  assumes "korbit_step accepts vid cid (vf, cn, tr) (db, c, l) = (db2, c2, l2)"
  shows "fst (korbit_step accepts vid cid (vf, cn, tr) (db2, c2, l2)) = db2 \<and>
         fst (snd (korbit_step accepts vid cid (vf, cn, tr) (db2, c2, l2))) = c2"
proof (cases "get_canonical_field_id db cn")
  case None
  then have "db2 = db" using assms unfolding korbit_step_simp by simp
  then show ?thesis unfolding korbit_step_simp using None by simp
next
  case (Some i)
  define r where "r = \<lparr>mapping_id = next_mapping_id db, fm_vendor_id = vid,
                  fm_canonical_field_id = i, source_type = ''websocket'',
                  entity_type = ''ticker'', vendor_field_path = vf,
                  fm_endpoint_id = None, fm_channel_id = Some cid,
                  transformation_rule = Some tr, priority = default_priority,
                  is_active = default_is_active\<rparr>"
  show ?thesis
  proof (cases "i \<noteq> 0 \<and> existing_by_path db vid vf i = [] \<and> accepts db r")
    case False
    then have "db2 = db" using assms Some unfolding korbit_step_simp r_def by (auto split: if_splits)
    then show ?thesis unfolding korbit_step_simp using Some False r_def by auto
  next
    case True
    then have db2: "db2 = insert_field_mapping db r"
      using assms Some unfolding korbit_step_simp r_def by simp
    have g: "get_canonical_field_id db2 cn = Some i"
      using Some get_canonical_field_id_cong [of db2 db cn]
      by (simp add: db2 insert_field_mapping_frame)
    have "existing_by_path db2 vid vf i \<noteq> []"
      by (simp add: db2 existing_by_path_def insert_field_mapping_frame r_def)
    then show ?thesis unfolding korbit_step_simp g using True by simp
  qed
qed

lemma korbit_exactly_one:
  assumes "korbit_step accepts vid cid (vf, cn, tr) (db, c, l) = (db2, c + 1, l2)"
      and "get_canonical_field_id db cn = Some i"
  shows "length (natural_key_rows db2 vid i ''websocket'' vf None (Some cid)) = 1"
proof -
  define r where "r = \<lparr>mapping_id = next_mapping_id db, fm_vendor_id = vid,
                  fm_canonical_field_id = i, source_type = ''websocket'',
                  entity_type = ''ticker'', vendor_field_path = vf,
                  fm_endpoint_id = None, fm_channel_id = Some cid,
                  transformation_rule = Some tr, priority = default_priority,
                  is_active = default_is_active\<rparr>"
  have ex: "existing_by_path db vid vf i = []" and db2: "db2 = insert_field_mapping db r"
    using assms unfolding korbit_step_simp r_def by (auto split: if_splits)
  have "natural_key_rows db vid i ''websocket'' vf None (Some cid) = []"
    unfolding natural_key_rows_def
    by (rule filter_weaker_Nil [OF ex [unfolded existing_by_path_def]]) simp
  then show ?thesis
    by (simp add: db2 natural_key_rows_def insert_field_mapping_frame r_def)
qed

text \<open>
  What holds of a second registration. A second identical call of the bitmart
  \<open>create_field_mapping\<close> stores nothing and returns what the first call returned,
  success after success; a second identical turn of the korbit loop stores nothing and
  creates nothing. After the two calls exactly one row carries the natural key of the
  mapping whenever the first call inserted it, that is, whenever no stored row matched
  the existence check of the script before: vendor, canonical field, path and channel
  for bitmart; vendor, path and canonical field, whatever the source, for korbit.
\<close>

theorem registering_twice:
  "(bitmart_create_field_mapping accepts db vid cfid vp cid et rule prio = (db1, ok) \<longrightarrow>
      bitmart_create_field_mapping accepts db1 vid cfid vp cid et rule prio = (db1, ok) \<and>
      (ok \<and> bitmart_existing db vid cfid vp cid = [] \<longrightarrow>
         length (natural_key_rows db1 vid cfid ''websocket'' vp None (Some cid)) = 1)) \<and>
   (korbit_step accepts kvid kcid (vf, cn, tr) (kdb, c, l) = (db2, c2, l2) \<longrightarrow>
      fst (korbit_step accepts kvid kcid (vf, cn, tr) (db2, c2, l2)) = db2 \<and>
      fst (snd (korbit_step accepts kvid kcid (vf, cn, tr) (db2, c2, l2))) = c2 \<and>
      (c2 = c + 1 \<and> get_canonical_field_id kdb cn = Some i \<longrightarrow>
         length (natural_key_rows db2 kvid i ''websocket'' vf None (Some kcid)) = 1))"
proof (intro conjI impI)
  assume b: "bitmart_create_field_mapping accepts db vid cfid vp cid et rule prio = (db1, ok)"
  then show "bitmart_create_field_mapping accepts db1 vid cfid vp cid et rule prio = (db1, ok)"
    by (rule bitmart_second_call)
  assume "ok \<and> bitmart_existing db vid cfid vp cid = []"
  with b show "length (natural_key_rows db1 vid cfid ''websocket'' vp None (Some cid)) = 1"
    by (simp add: bitmart_exactly_one)
next
  assume k: "korbit_step accepts kvid kcid (vf, cn, tr) (kdb, c, l) = (db2, c2, l2)"
  then show "fst (korbit_step accepts kvid kcid (vf, cn, tr) (db2, c2, l2)) = db2"
    and "fst (snd (korbit_step accepts kvid kcid (vf, cn, tr) (db2, c2, l2))) = c2"
    using korbit_second_step by blast+
  assume "c2 = c + 1 \<and> get_canonical_field_id kdb cn = Some i"
  with k show "length (natural_key_rows db2 kvid i ''websocket'' vf None (Some kcid)) = 1"
    using korbit_exactly_one by blast
qed

theorem registering_twice_witness:
  "bitmart_create_field_mapping schema_accepts bitmart_db 1 1 ''data[].last_price'' 4 ''ticker''
       (Some String_to_numeric) 10 =
     (bitmart_db\<lparr>field_mappings := [websocket_row]\<rparr>, True) \<and>
   bitmart_create_field_mapping schema_accepts (bitmart_db\<lparr>field_mappings := [websocket_row]\<rparr>)
       1 1 ''data[].last_price'' 4 ''ticker'' (Some String_to_numeric) 10 =
     (bitmart_db\<lparr>field_mappings := [websocket_row]\<rparr>, True) \<and>
   bitmart_existing bitmart_db 1 1 ''data[].last_price'' 4 = [] \<and>
   length (natural_key_rows (bitmart_db\<lparr>field_mappings := [websocket_row]\<rparr>) 1 1
             ''websocket'' ''data[].last_price'' None (Some 4)) = 1 \<and>
   fst (snd (korbit_step schema_accepts 1 7 (''last'', ''last_price'', String_to_numeric)
               (small_db, 0, []))) = 0 + 1 \<and>
   get_canonical_field_id small_db ''last_price'' = Some 1 \<and>
   fst (korbit_step schema_accepts 1 7 (''last'', ''last_price'', String_to_numeric)
          (korbit_step schema_accepts 1 7 (''last'', ''last_price'', String_to_numeric)
             (small_db, 0, []))) =
     fst (korbit_step schema_accepts 1 7 (''last'', ''last_price'', String_to_numeric)
            (small_db, 0, [])) \<and>
   length (natural_key_rows
             (fst (korbit_step schema_accepts 1 7 (''last'', ''last_price'', String_to_numeric)
                     (small_db, 0, [])))
             1 1 ''websocket'' ''last'' None (Some 7)) = 1"
proof -
  have b: "bitmart_create_field_mapping schema_accepts bitmart_db 1 1 ''data[].last_price'' 4
             ''ticker'' (Some String_to_numeric) 10 =
           (bitmart_db\<lparr>field_mappings := [websocket_row]\<rparr>, True)"
    by code_simp
  have e: "bitmart_existing bitmart_db 1 1 ''data[].last_price'' 4 = []"
    by code_simp
  obtain d2 l2 where k: "korbit_step schema_accepts 1 7 (''last'', ''last_price'', String_to_numeric)
                        (small_db, 0, []) = (d2, 0 + 1, l2)"
  proof -
    have "fst (snd (korbit_step schema_accepts 1 7 (''last'', ''last_price'', String_to_numeric)
                      (small_db, 0, []))) = 0 + 1"
      by code_simp
    then show ?thesis
      using that
      by (cases "korbit_step schema_accepts 1 7 (''last'', ''last_price'', String_to_numeric)
                   (small_db, 0, [])") auto
  qed
  have g: "get_canonical_field_id small_db ''last_price'' = Some 1"
    by code_simp
  show ?thesis
    using b e k g
      registering_twice [where accepts = schema_accepts and db = bitmart_db and vid = 1
        and cfid = 1 and vp = "''data[].last_price''" and cid = 4 and et = "''ticker''"
        and rule = "Some String_to_numeric" and prio = 10
        and ?db1.0 = "bitmart_db\<lparr>field_mappings := [websocket_row]\<rparr>" and ok = True
        and kvid = 1 and kcid = 7 and vf = "''last''" and cn = "''last_price''"
        and tr = String_to_numeric and kdb = small_db and c = 0 and l = "[]"
        and ?db2.0 = d2 and ?c2.0 = "0 + 1" and ?l2.0 = l2 and i = 1]
    by simp
qed

text \<open>
  C1. The existence check of the korbit script does not look at the source of a
  mapping. On a database where the vendor korbit has a REST mapping of the path
  \<open>last\<close> to \<open>last_price\<close> stored, two real passes of \<open>create_mappings\<close> leave no
  row with the natural key of the websocket mapping of \<open>last\<close> (vendor, canonical
  field, source type websocket, path, ticker channel): not the one row of the claim,
  although the canonical field resolves and the constraints would accept the row.
\<close>

theorem korbit_twice_no_websocket_row:
  "natural_key_rows
     (fst (korbit_create_mappings schema_accepts False
            (fst (korbit_create_mappings schema_accepts False korbit_rest_db))))
     2 1 ''websocket'' ''last'' None (Some 7) = [] \<and>
   get_canonical_field_id korbit_rest_db ''last_price'' = Some 1 \<and>
   field_mappings korbit_rest_db = [rest_row] \<and>
   schema_accepts korbit_rest_db
     \<lparr>mapping_id = 2, fm_vendor_id = 2, fm_canonical_field_id = 1, source_type = ''websocket'',
      entity_type = ''ticker'', vendor_field_path = ''last'', fm_endpoint_id = None,
      fm_channel_id = Some 7, transformation_rule = Some String_to_numeric,
      priority = default_priority, is_active = default_is_active\<rparr>"
  by code_simp

section \<open>The two coverage computations\<close>

lemma count_ticker_mappings_vendor:
  assumes "distinct (map vendor_name (vendors db))" and "v \<in> set (vendors db)"
  shows "count_ticker_mappings db (vendor_name v) =
           length (filter (\<lambda>fm. vendor_id v = fm_vendor_id fm \<and> entity_type fm = ''ticker'')
                     (field_mappings db))"
proof -
  have one: "filter (\<lambda>u. vendor_name u = vendor_name v) (vendors db) = [v]"
    using assms by (rule filter_key_single)
  have "count_ticker_mappings db (vendor_name v) =
          sum_list (map (\<lambda>u. if vendor_name u = vendor_name v
                              then length (filter (\<lambda>fm. vendor_id u = fm_vendor_id fm \<and>
                                                     entity_type fm = ''ticker'') (field_mappings db))
                              else 0) (vendors db))"
    by (simp add: count_ticker_mappings_def length_concat_guarded sum_list_indicator cong: if_cong)
  also have "\<dots> = sum_list (map (\<lambda>u. length (filter (\<lambda>fm. vendor_id u = fm_vendor_id fm \<and>
                                                     entity_type fm = ''ticker'') (field_mappings db)))
                              (filter (\<lambda>u. vendor_name u = vendor_name v) (vendors db)))"
    by (induction "vendors db") (simp_all add: sum_list_map_filter')
  finally show ?thesis by (simp add: one)
qed


lemma total_ticker_fields_as_filter:
  assumes tick: "filter (\<lambda>t. data_type_name t = ''ticker'') (canonical_data_types db) = [dt]"
      and dist: "distinct (map dtf_canonical_field_id
                   (filter (\<lambda>d. dtf_data_type_id d = data_type_id dt) (data_type_fields db)))"
  shows "get_total_canonical_ticker_fields db =
           length (filter (\<lambda>cf. canonical_field_id cf \<in>
                       dtf_canonical_field_id `
                         set (filter (\<lambda>d. dtf_data_type_id d = data_type_id dt) (data_type_fields db)))
                     (canonical_fields db))"
proof -
  define D where "D = filter (\<lambda>d. dtf_data_type_id d = data_type_id dt) (data_type_fields db)"
  have inner: "length (concat (map (\<lambda>cdt. if dtf_data_type_id dtf = data_type_id cdt
                                 then if data_type_name cdt = ''ticker'' then [(cf, dtf, cdt)] else []
                                 else []) (canonical_data_types db))) =
                 (if dtf_data_type_id dtf = data_type_id dt then Suc 0 else 0)" for dtf cf
    unfolding length_concat_two_guards tick by simp
  have middle: "length (concat (map (\<lambda>dtf. if canonical_field_id cf = dtf_canonical_field_id dtf
                  then concat (map (\<lambda>cdt. if dtf_data_type_id dtf = data_type_id cdt
                                 then if data_type_name cdt = ''ticker'' then [(cf, dtf, cdt)] else []
                                 else []) (canonical_data_types db))
                  else []) (data_type_fields db))) =
                (if canonical_field_id cf \<in> dtf_canonical_field_id ` set D then Suc 0 else 0)" for cf
  proof -
    have "length (concat (map (\<lambda>dtf. if canonical_field_id cf = dtf_canonical_field_id dtf
                  then concat (map (\<lambda>cdt. if dtf_data_type_id dtf = data_type_id cdt
                                 then if data_type_name cdt = ''ticker'' then [(cf, dtf, cdt)] else []
                                 else []) (canonical_data_types db))
                  else []) (data_type_fields db))) =
          length (filter (\<lambda>dtf. canonical_field_id cf = dtf_canonical_field_id dtf \<and>
                                dtf_data_type_id dtf = data_type_id dt) (data_type_fields db))"
      apply (subst length_concat_guarded)
      apply (simp only: inner cong: if_cong)
      apply (rule sum_list_nested_indicator)
      done
    also have "\<dots> = length (filter (\<lambda>d. dtf_canonical_field_id d = canonical_field_id cf) D)"
      unfolding D_def filter_filter by (rule arg_cong [where f = length], rule filter_cong) auto
    also have "\<dots> = (if canonical_field_id cf \<in> dtf_canonical_field_id ` set D then 1 else 0)"
      using dist unfolding D_def [symmetric] by (rule length_filter_key)
    finally show ?thesis by simp
  qed
  have "get_total_canonical_ticker_fields db =
          sum_list (map (\<lambda>cf. if canonical_field_id cf \<in> dtf_canonical_field_id ` set D
                              then Suc 0 else 0) (canonical_fields db))"
    unfolding get_total_canonical_ticker_fields_def
    apply (subst length_concat_plain)
    apply (simp only: middle)
    done
  then show ?thesis
    by (simp add: sum_list_indicator D_def)
qed

lemma set_type_field_ids:
  "set (type_field_ids db dt) =
     set (map canonical_field_id (canonical_fields db)) \<inter>
     dtf_canonical_field_id `
       set (filter (\<lambda>d. dtf_data_type_id d = data_type_id dt) (data_type_fields db))"
proof -
  have "x \<in> set (type_field_ids db dt) \<longleftrightarrow>
          (\<exists>d \<in> set (data_type_fields db). \<exists>cf \<in> set (canonical_fields db).
              data_type_id dt = dtf_data_type_id d \<and>
              dtf_canonical_field_id d = canonical_field_id cf \<and> x = canonical_field_id cf)" for x
    by (auto simp: type_field_ids_def)
  then show ?thesis
    by (auto simp: image_iff) metis+
qed

lemma fields_defined_eq_total:
  assumes tick: "filter (\<lambda>t. data_type_name t = ''ticker'') (canonical_data_types db) = [dt]"
      and dist: "distinct (map dtf_canonical_field_id
                   (filter (\<lambda>d. dtf_data_type_id d = data_type_id dt) (data_type_fields db)))"
      and cfs: "distinct (map canonical_field_id (canonical_fields db))"
  shows "length (remdups (type_field_ids db dt)) = get_total_canonical_ticker_fields db"
proof -
  define S where "S = dtf_canonical_field_id `
       set (filter (\<lambda>d. dtf_data_type_id d = data_type_id dt) (data_type_fields db))"
  have "get_total_canonical_ticker_fields db =
          length (filter (\<lambda>cf. canonical_field_id cf \<in> S) (canonical_fields db))"
    unfolding S_def using tick dist by (rule total_ticker_fields_as_filter)
  also have "\<dots> = length (filter (\<lambda>i. i \<in> S) (map canonical_field_id (canonical_fields db)))"
    by (simp add: filter_map comp_def)
  also have "\<dots> = card (set (filter (\<lambda>i. i \<in> S) (map canonical_field_id (canonical_fields db))))"
  proof -
    have "distinct (filter (\<lambda>i. i \<in> S) (map canonical_field_id (canonical_fields db)))"
      using cfs by (rule distinct_filter)
    then show ?thesis by (rule distinct_card [symmetric])
  qed
  also have "set (filter (\<lambda>i. i \<in> S) (map canonical_field_id (canonical_fields db))) =
               set (type_field_ids db dt)"
    unfolding set_type_field_ids S_def by auto
  finally show ?thesis by (simp add: length_remdups_card_conv)
qed


lemma rest_mapped_count:
  assumes tick: "data_type_name dt = ''ticker''"
      and plain: "\<forall>fm \<in> set (field_mappings db).
                    vendor_id v = fm_vendor_id fm \<and> entity_type fm = ''ticker'' \<longrightarrow>
                    is_active fm \<and> source_type fm = ''rest'' \<and>
                    fm_canonical_field_id fm \<in> set (type_field_ids db dt)"
      and inj: "distinct (map fm_canonical_field_id
                  (filter (\<lambda>fm. vendor_id v = fm_vendor_id fm \<and> entity_type fm = ''ticker'')
                     (field_mappings db)))"
  shows "length (remdups (rest_mapped_ids db v dt)) =
           length (filter (\<lambda>fm. vendor_id v = fm_vendor_id fm \<and> entity_type fm = ''ticker'')
                     (field_mappings db))"
proof -
  define T where "T = filter (\<lambda>fm. vendor_id v = fm_vendor_id fm \<and> entity_type fm = ''ticker'')
                        (field_mappings db)"
  have "set (rest_mapped_ids db v dt) = set (map fm_canonical_field_id T)"
    using plain by (auto simp: rest_mapped_ids_def T_def tick)
  then have "length (remdups (rest_mapped_ids db v dt)) = card (set (map fm_canonical_field_id T))"
    by (simp add: length_remdups_card_conv)
  also have "\<dots> = length (map fm_canonical_field_id T)"
    using inj unfolding T_def [symmetric] by (rule distinct_card)
  finally show ?thesis by (simp add: T_def)
qed

lemma rounding_agree:
  assumes "0 \<le> x" and "frac (x * 10) \<noteq> 1 / 2"
  shows "py_round1 x = sql_round1 x"
proof (cases "x = 0")
  case True
  then show ?thesis by (simp add: py_round1_def sql_round1_def)
next
  case False
  then have "0 < x" using assms(1) by simp
  then have "sgn x = 1" "\<bar>x\<bar> = x" by simp_all
  moreover have "x * 10 - of_int \<lfloor>x * 10\<rfloor> \<noteq> 1 / 2"
    using assms(2) by (simp add: frac_def)
  ultimately show ?thesis
    by (simp add: py_round1_def sql_round1_def Let_def)
qed

lemma coverage_entry:
  assumes "0 < get_total_canonical_ticker_fields db" and "v \<in> set (vendors db)"
  shows "(vendor_name v, count_ticker_mappings db (vendor_name v),
          py_round1 (of_nat (count_ticker_mappings db (vendor_name v))
                     / of_nat (get_total_canonical_ticker_fields db) * 100))
           \<in> set (get_exchange_ticker_coverage db)"
  using assms by (force simp: get_exchange_ticker_coverage_def Let_def ticker_mappings_query_def)

lemma coverage_entry_unique:
  assumes "(name, m, c) \<in> set (get_exchange_ticker_coverage db)"
  shows "m = count_ticker_mappings db name \<and>
         c = py_round1 (of_nat m / of_nat (get_total_canonical_ticker_fields db) * 100)"
  using assms
  by (cases "get_total_canonical_ticker_fields db = 0")
     (auto simp: get_exchange_ticker_coverage_def Let_def ticker_mappings_query_def)

lemma verify_entry:
  assumes "u \<in> set (vendors db)" and "t \<in> set (canonical_data_types db)"
      and "data_type_name t = ''ticker''" and "type_field_ids db t \<noteq> []"
  shows "(vendor_name u, ''ticker'', length (remdups (type_field_ids db t)),
          length (remdups (rest_mapped_ids db u t)),
          sql_round1 (of_nat (length (remdups (rest_mapped_ids db u t))) * 100
                      / of_nat (length (remdups (type_field_ids db t)))))
           \<in> set (verify_ticker_coverage db)"
  using assms by (force simp: verify_ticker_coverage_def)

lemma verify_entryE:
  assumes "(name, tname, fd, fm, c) \<in> set (verify_ticker_coverage db)"
  obtains u t where "u \<in> set (vendors db)" and "t \<in> set (canonical_data_types db)"
    and "data_type_name t = ''ticker''" and "name = vendor_name u"
    and "fd = length (remdups (type_field_ids db t))"
    and "fm = length (remdups (rest_mapped_ids db u t))"
    and "c = sql_round1 (of_nat (length (remdups (rest_mapped_ids db u t))) * 100
                         / of_nat (length (remdups (type_field_ids db t))))"
  using assms by (auto simp: verify_ticker_coverage_def)

text \<open>
  Where a percentage lies exactly half-way between two tenths the two roundings part:
  one mapping of sixteen fields is 6.25 percent, which Python rounds to 6.2 and SQLite
  to 6.3.
\<close>

lemma rounding_tie:
  "py_round1 (of_nat 1 / of_nat 16 * 100) = 62 / 10 \<and>
   sql_round1 (of_nat 1 * 100 / of_nat 16) = 63 / 10"
  by code_simp

text \<open>
  C10, amended. Let the vendor names be distinct, one data type be named ticker, the
  canonical field identifiers be distinct, the ticker type list no field twice and at
  least one field. For a vendor whose ticker mappings are all active, of source type
  rest, on canonical fields of the ticker type and on pairwise different canonical
  fields, \<open>get_exchange_ticker_coverage\<close> and the coverage query of \<open>verify_mappings\<close>
  count the same number of mapped fields over the same number of defined fields, and
  unless the percentage lies exactly half-way between two tenths they give the vendor
  the same \<open>coverage_percent\<close>, each in one way only.
\<close>

theorem coverage_computations_agree:
  assumes names: "distinct (map vendor_name (vendors db))"
      and v: "v \<in> set (vendors db)"
      and tick: "filter (\<lambda>t. data_type_name t = ''ticker'') (canonical_data_types db) = [dt]"
      and cfs: "distinct (map canonical_field_id (canonical_fields db))"
      and dtfs: "distinct (map dtf_canonical_field_id
                   (filter (\<lambda>d. dtf_data_type_id d = data_type_id dt) (data_type_fields db)))"
      and pos: "0 < get_total_canonical_ticker_fields db"
      and plain: "\<forall>fm \<in> set (field_mappings db).
                    vendor_id v = fm_vendor_id fm \<and> entity_type fm = ''ticker'' \<longrightarrow>
                    is_active fm \<and> source_type fm = ''rest'' \<and>
                    fm_canonical_field_id fm \<in> set (type_field_ids db dt)"
      and inj: "distinct (map fm_canonical_field_id
                  (filter (\<lambda>fm. vendor_id v = fm_vendor_id fm \<and> entity_type fm = ''ticker'')
                     (field_mappings db)))"
      and no_tie: "frac (of_nat (count_ticker_mappings db (vendor_name v)) * 1000
                         / of_nat (get_total_canonical_ticker_fields db) :: rat) \<noteq> 1 / 2"
  shows "\<exists>p. (vendor_name v, count_ticker_mappings db (vendor_name v), p)
                 \<in> set (get_exchange_ticker_coverage db) \<and>
              (vendor_name v, ''ticker'', get_total_canonical_ticker_fields db,
               count_ticker_mappings db (vendor_name v), p)
                 \<in> set (verify_ticker_coverage db) \<and>
              (\<forall>m c. (vendor_name v, m, c) \<in> set (get_exchange_ticker_coverage db) \<longrightarrow> c = p) \<and>
              (\<forall>tn fd m c. (vendor_name v, tn, fd, m, c) \<in> set (verify_ticker_coverage db)
                  \<longrightarrow> c = p)"
proof -
  define n where "n = count_ticker_mappings db (vendor_name v)"
  define total where "total = get_total_canonical_ticker_fields db"
  define p where "p = py_round1 (of_nat n / of_nat total * 100)"
  have "dt \<in> set (filter (\<lambda>t. data_type_name t = ''ticker'') (canonical_data_types db))"
    unfolding tick by simp
  then have dt_in: "dt \<in> set (canonical_data_types db)" and dt_name: "data_type_name dt = ''ticker''"
    by simp_all
  have only_dt: "t = dt" if "t \<in> set (canonical_data_types db)" "data_type_name t = ''ticker''" for t
  proof -
    have "t \<in> set (filter (\<lambda>t. data_type_name t = ''ticker'') (canonical_data_types db))"
      using that by simp
    then show ?thesis unfolding tick by simp
  qed
  have only_v: "u = v" if "u \<in> set (vendors db)" "vendor_name u = vendor_name v" for u
    using names v that by (meson distinct_map inj_onD)
  have fd: "length (remdups (type_field_ids db dt)) = total"
    unfolding total_def using tick dtfs cfs by (rule fields_defined_eq_total)
  have n_len: "n = length (filter (\<lambda>fm. vendor_id v = fm_vendor_id fm \<and> entity_type fm = ''ticker'')
                             (field_mappings db))"
    unfolding n_def using names v by (rule count_ticker_mappings_vendor)
  have fm: "length (remdups (rest_mapped_ids db v dt)) = n"
    unfolding n_len using dt_name plain inj by (rule rest_mapped_count)
  have nonempty: "type_field_ids db dt \<noteq> []"
    using fd pos by (auto simp: total_def)
  have same_value: "of_nat n * 100 / of_nat total = (of_nat n / of_nat total * 100 :: rat)"
    by simp
  have "(of_nat n / of_nat total * 100 :: rat) * 10 = of_nat n * 1000 / of_nat total"
    by simp
  then have "frac ((of_nat n / of_nat total * 100 :: rat) * 10) \<noteq> 1 / 2"
    using no_tie unfolding n_def total_def by (simp only:) simp
  moreover have "(0::rat) \<le> of_nat n / of_nat total * 100" by simp
  ultimately have round: "sql_round1 (of_nat n * 100 / of_nat total) = p"
    unfolding p_def same_value by (simp add: rounding_agree)
  have e1: "(vendor_name v, n, p) \<in> set (get_exchange_ticker_coverage db)"
    unfolding n_def p_def total_def using pos v by (rule coverage_entry)
  have e2: "(vendor_name v, ''ticker'', total, n, p) \<in> set (verify_ticker_coverage db)"
    using verify_entry [OF v dt_in dt_name nonempty] by (simp add: fd fm round)
  have u1: "c = p" if "(vendor_name v, m, c) \<in> set (get_exchange_ticker_coverage db)" for m c
    using coverage_entry_unique [OF that] by (simp add: p_def n_def total_def)
  have u2: "c = p" if "(vendor_name v, tn, fd', m, c) \<in> set (verify_ticker_coverage db)" for tn fd' m c
  proof -
    from that obtain u t where "u \<in> set (vendors db)" "t \<in> set (canonical_data_types db)"
      "data_type_name t = ''ticker''" "vendor_name v = vendor_name u"
      "c = sql_round1 (of_nat (length (remdups (rest_mapped_ids db u t))) * 100
                         / of_nat (length (remdups (type_field_ids db t))))"
      by (rule verify_entryE)
    moreover from this have "u = v" "t = dt" using only_v only_dt by auto
    ultimately show ?thesis by (simp add: fd fm round)
  qed
  show ?thesis
    using e1 e2 u1 u2 unfolding n_def total_def by blast
qed


theorem coverage_computations_agree_witness:
  "distinct (map vendor_name (vendors korbit_rest_db)) \<and>
   \<lparr>vendor_id = 2, vendor_name = ''korbit''\<rparr> \<in> set (vendors korbit_rest_db) \<and>
   filter (\<lambda>t. data_type_name t = ''ticker'') (canonical_data_types korbit_rest_db) =
     [\<lparr>data_type_id = 1, data_type_name = ''ticker''\<rparr>] \<and>
   0 < get_total_canonical_ticker_fields korbit_rest_db \<and>
   list_all (\<lambda>fm. is_active fm \<and> source_type fm = ''rest'' \<and> fm_canonical_field_id fm = 1)
     (field_mappings korbit_rest_db) \<and>
   (\<exists>p. (''korbit'', count_ticker_mappings korbit_rest_db ''korbit'', p)
            \<in> set (get_exchange_ticker_coverage korbit_rest_db) \<and>
         (''korbit'', ''ticker'', get_total_canonical_ticker_fields korbit_rest_db,
          count_ticker_mappings korbit_rest_db ''korbit'', p)
            \<in> set (verify_ticker_coverage korbit_rest_db))"
proof -
  let ?v = "\<lparr>vendor_id = 2, vendor_name = ''korbit''\<rparr>"
  let ?dt = "\<lparr>data_type_id = 1, data_type_name = ''ticker''\<rparr>"
  have names: "distinct (map vendor_name (vendors korbit_rest_db))" by code_simp
  have v: "?v \<in> set (vendors korbit_rest_db)" by code_simp
  have tick: "filter (\<lambda>t. data_type_name t = ''ticker'') (canonical_data_types korbit_rest_db) = [?dt]"
    by code_simp
  have cfs: "distinct (map canonical_field_id (canonical_fields korbit_rest_db))" by code_simp
  have dtfs: "distinct (map dtf_canonical_field_id
                (filter (\<lambda>d. dtf_data_type_id d = data_type_id ?dt) (data_type_fields korbit_rest_db)))"
    by code_simp
  have pos: "0 < get_total_canonical_ticker_fields korbit_rest_db" by code_simp
  have plain: "\<forall>fm \<in> set (field_mappings korbit_rest_db).
                 vendor_id ?v = fm_vendor_id fm \<and> entity_type fm = ''ticker'' \<longrightarrow>
                 is_active fm \<and> source_type fm = ''rest'' \<and>
                 fm_canonical_field_id fm \<in> set (type_field_ids korbit_rest_db ?dt)"
    by code_simp
  have inj: "distinct (map fm_canonical_field_id
               (filter (\<lambda>fm. vendor_id ?v = fm_vendor_id fm \<and> entity_type fm = ''ticker'')
                  (field_mappings korbit_rest_db)))"
    by code_simp
  have no_tie: "frac (of_nat (count_ticker_mappings korbit_rest_db (vendor_name ?v)) * 1000
                      / of_nat (get_total_canonical_ticker_fields korbit_rest_db) :: rat) \<noteq> 1 / 2"
    by code_simp
  have all: "list_all (\<lambda>fm. is_active fm \<and> source_type fm = ''rest'' \<and> fm_canonical_field_id fm = 1)
               (field_mappings korbit_rest_db)"
    by code_simp
  have "vendor_name ?v = ''korbit''" by simp
  then show ?thesis
    using names v tick pos all
      coverage_computations_agree [OF names v tick cfs dtfs pos plain inj no_tie]
    by auto
qed

text \<open>
  Without these conditions the two differ: for a vendor with one active websocket
  mapping of the one ticker field, \<open>update_status.py\<close> reports 100 percent and the
  query of \<open>verify_mappings\<close>, which counts REST mappings alone, 0 percent.
\<close>

theorem coverage_computations_differ:
  "get_exchange_ticker_coverage (bitmart_db\<lparr>field_mappings := [websocket_row]\<rparr>) =
     [(''bitmart'', 1, 100)] \<and>
   verify_ticker_coverage (bitmart_db\<lparr>field_mappings := [websocket_row]\<rparr>) =
     [(''bitmart'', ''ticker'', 1, 0, 0)]"
  by code_simp

section \<open>Leaders of equal coverage and different counts\<close>





end
